theory Spec2Isabelle
  imports Complex_Main
begin

section \<open>Python strings and truthiness\<close>

text \<open>
  A Python \<open>str\<close> is modelled as a \<open>string\<close>, read as a list of code points below 256.
  \<open>lower\<close> and \<open>isdigit\<close> are Python's on that range: the ASCII capitals and the
  Latin-1 capitals (all of C0..DE but the multiplication sign D7) move down by 32; the
  digits are 0..9 and the superscripts B2, B3, B9.
\<close>

definition lower_char :: "char \<Rightarrow> char" where
  "lower_char c =
     (let n = (of_char c :: nat)
      in if (65 \<le> n \<and> n \<le> 90) \<or> (192 \<le> n \<and> n \<le> 222 \<and> n \<noteq> 215)
         then char_of (n + 32) else c)"

definition lower :: "string \<Rightarrow> string" where
  "lower s = map lower_char s"

definition isdigit :: "char \<Rightarrow> bool" where
  "isdigit c =
     (let n = (of_char c :: nat)
      in (48 \<le> n \<and> n \<le> 57) \<or> n = 178 \<or> n = 179 \<or> n = 185)"

text \<open>\<open>s.startswith(p)\<close>, \<open>s.endswith(p)\<close> and the substring test \<open>sub in s\<close>.\<close>

fun startswith :: "string \<Rightarrow> string \<Rightarrow> bool" where
  "startswith s [] = True"
| "startswith [] (p # ps) = False"
| "startswith (c # cs) (p # ps) = (if c = p then startswith cs ps else False)"

definition endswith :: "string \<Rightarrow> string \<Rightarrow> bool" where
  "endswith s p = startswith (rev s) (rev p)"

fun contains :: "string \<Rightarrow> string \<Rightarrow> bool" where
  "contains [] sub = (sub = [])"
| "contains (c # cs) sub = (if startswith (c # cs) sub then True else contains cs sub)"

text \<open>\<open>any(p(x) for x in xs)\<close>.\<close>

primrec py_any :: "('a \<Rightarrow> bool) \<Rightarrow> 'a list \<Rightarrow> bool" where
  "py_any p [] = False"
| "py_any p (x # xs) = (if p x then True else py_any p xs)"

text \<open>
  Truthiness of an optional string (\<open>None\<close> and \<open>""\<close> are false) and the string that
  \<open>x or ""\<close> gives.
\<close>

fun truthy :: "string option \<Rightarrow> bool" where
  "truthy None = False"
| "truthy (Some s) = (s \<noteq> [])"

fun or_empty :: "string option \<Rightarrow> string" where
  "or_empty None = []"
| "or_empty (Some s) = s"

section \<open>Constants\<close>

definition PARKED_KEYWORDS :: "string list" where
  "PARKED_KEYWORDS =
     [''buy this domain'', ''this domain is for sale'', ''domain is for sale'',
      ''domain may be for sale'', ''parked free'', ''parked by'', ''parked domain'',
      ''domain parking'', ''this webpage was generated'', ''is available for purchase'',
      ''make an offer'', ''purchase this domain'', ''acquire this domain'',
      ''domain for sale'', ''this domain name'', ''get this domain'']"

definition SALE_PLATFORMS :: "string list" where
  "SALE_PLATFORMS =
     [''godaddy'', ''sedo'', ''afternic'', ''dan.com'', ''hugedomains'', ''namecheap'',
      ''flippa'', ''squadhelp'', ''brandpa'', ''atom.com'', ''undeveloped'',
      ''domainagents'', ''buy.it'', ''bodis'']"

definition KNOWN_ACTIVE_DOMAINS :: "string list" where
  "KNOWN_ACTIVE_DOMAINS =
     [''ebay.com'', ''baidu.com'', ''washingtonpost.com'', ''snap.com'',
      ''about.com'', ''realplayer.com'']"

definition HIGH_VALUE_KEYWORDS :: "string list" where
  "HIGH_VALUE_KEYWORDS =
     [''tech'', ''ai'', ''cloud'', ''data'', ''cyber'', ''net'', ''web'', ''app'', ''code'',
      ''dev'', ''digital'', ''smart'', ''auto'', ''pay'', ''fin'', ''bank'', ''cash'', ''money'',
      ''crypto'', ''trade'', ''invest'', ''fund'', ''loan'', ''credit'', ''insurance'',
      ''social'', ''chat'', ''meet'', ''link'', ''share'', ''connect'', ''hub'', ''live'',
      ''stream'', ''video'', ''media'', ''news'', ''health'', ''med'', ''care'', ''fit'',
      ''shop'', ''store'', ''buy'', ''deal'', ''market'', ''sale'',
      ''game'', ''play'', ''bet'', ''win'', ''sport'',
      ''travel'', ''trip'', ''fly'', ''hotel'', ''book'',
      ''food'', ''eat'', ''cook'', ''recipe'',
      ''learn'', ''edu'', ''study'', ''course'', ''tutor'',
      ''job'', ''hire'', ''work'', ''career'', ''talent'',
      ''home'', ''house'', ''real'', ''rent'', ''property'']"

section \<open>The probe result and the content analysis\<close>

text \<open>The dict that \<open>probe_http\<close> builds, and its initial value.\<close>

record http_result =
  http_status_code :: "int option"
  page_title :: "string option"
  body_text :: string
  redirect_url :: "string option"
  is_parked :: bool
  is_for_sale :: bool
  sale_platform :: "string option"
  final_url :: "string option"
  error :: "string option"

definition initial_result :: http_result where
  "initial_result =
     \<lparr>http_status_code = None, page_title = None, body_text = [], redirect_url = None,
      is_parked = False, is_for_sale = False, sale_platform = None, final_url = None,
      error = None\<rparr>"

definition sale_phrases :: "string list" where
  "sale_phrases =
     [''buy this domain'', ''purchase this domain'', ''make an offer on this domain'',
      ''acquire this domain'', ''this domain is for sale'',
      ''domain is available for purchase'', ''domain may be for sale'']"

definition title_words :: "string list" where
  "title_words = [''domain'', ''parked'', ''for sale'', ''coming soon'']"

definition placeholder_words :: "string list" where
  "placeholder_words = [''parked'', ''for sale'', ''domain'', ''coming soon'']"

text \<open>\<open>len(body_text.replace(" ", ""))\<close>: only the space character is removed.\<close>

definition stripped_len :: "string \<Rightarrow> nat" where
  "stripped_len body = length (filter (\<lambda>c. c \<noteq> CHR '' '') body)"

definition is_real_site :: "http_result \<Rightarrow> string \<Rightarrow> bool" where
  "is_real_site result body =
     (let title = lower (or_empty (page_title result))
      in stripped_len body > 5000 \<and> title \<noteq> [] \<and>
         \<not> py_any (\<lambda>w. contains title w) title_words)"

text \<open>
  \<open>_analyse_page_content\<close> (the name loses its leading underscore). The source mutates
  the dict; the model returns the updated record. Each \<open>let\<close> is one block of the source,
  in its order.
\<close>

definition analyse_page_content :: "http_result \<Rightarrow> string \<Rightarrow> string \<Rightarrow> http_result" where
  "analyse_page_content result body raw_html =
     (let is_thin_page = stripped_len body < 2000
      in if is_real_site result body then result
         else
           let parked_hits = length (filter (\<lambda>kw. contains body kw) PARKED_KEYWORDS);
               r1 = (if parked_hits \<ge> 2 \<or> (parked_hits \<ge> 1 \<and> is_thin_page)
                     then result\<lparr>is_parked := True\<rparr> else result);
               platform_found = find (\<lambda>platform. contains body platform) SALE_PLATFORMS;
               r2 = (case platform_found of
                       None \<Rightarrow> r1
                     | Some platform \<Rightarrow>
                         if is_thin_page
                         then r1\<lparr>is_for_sale := True, sale_platform := Some platform\<rparr>
                         else r1);
               r3 = (if py_any (\<lambda>phrase. contains body phrase) sale_phrases
                     then r2\<lparr>is_for_sale := True\<rparr> else r2);
               r4 = (if is_for_sale r3 then r3\<lparr>is_parked := True\<rparr> else r3)
           in if stripped_len body < 150 \<and> truthy (page_title r4) \<and>
                 py_any (\<lambda>kw. contains (lower (or_empty (page_title r4))) kw) placeholder_words
              then r4\<lparr>is_parked := True\<rparr> else r4)"

text \<open>
  The result that \<open>probe_http\<close> hands to the analysis on a 200 response: the initial
  dict with the status code, the final URL, the redirect URL, the title and the first
  5000 characters of the body filled in; both flags are still unset.
\<close>

definition probed :: "string option \<Rightarrow> string option \<Rightarrow> string option \<Rightarrow> string \<Rightarrow> http_result" where
  "probed url redirect title body =
     initial_result\<lparr>http_status_code := Some 200, final_url := url, redirect_url := redirect,
                    page_title := title, body_text := take 5000 body\<rparr>"

section \<open>Dates and the clock\<close>

text \<open>
  A naive \<open>datetime\<close> is the number of microseconds since 0001-01-01 00:00 (the day of
  ordinal 1 starts at \<open>86400000000\<close>). \<open>datetime.now()\<close> is a parameter \<open>now\<close> of every
  function that reads the clock. \<open>datetime.fromisoformat\<close> belongs to the interpreter and
  accepts more or fewer forms depending on its version, so it is a parameter too: it
  raises \<open>ValueError\<close> (\<open>Unparseable\<close>) or returns a naive or a timezone-aware value.
  Comparing or subtracting an aware value and the naive \<open>now\<close> raises \<open>TypeError\<close>.
\<close>

type_synonym datetime = int

datatype parsed = Unparseable | Naive datetime | Aware datetime

definition microseconds_per_day :: int where
  "microseconds_per_day = 86400000000"

text \<open>\<open>(now - t).days\<close>: a \<open>timedelta\<close> is normalised, so the days are the floor.\<close>

definition delta_days :: "datetime \<Rightarrow> datetime \<Rightarrow> int" where
  "delta_days now t = (now - t) div microseconds_per_day"

text \<open>
  One concrete parser, for the closed examples: the calendar-date form \<open>YYYY-MM-DD\<close>,
  which is what \<open>_safe_date\<close> writes for a \<open>datetime\<close> and what every interpreter version
  reads as the naive midnight of that day. The ordinal of a day follows the interpreter's
  \<open>_ymd2ord\<close>.
\<close>

definition is_leap :: "int \<Rightarrow> bool" where
  "is_leap y = (y mod 4 = 0 \<and> (y mod 100 \<noteq> 0 \<or> y mod 400 = 0))"

definition days_before_year :: "int \<Rightarrow> int" where
  "days_before_year y = (y - 1) * 365 + (y - 1) div 4 - (y - 1) div 100 + (y - 1) div 400"

definition days_in_month :: "int \<Rightarrow> int \<Rightarrow> int" where
  "days_in_month y m =
     (if m = 2 then (if is_leap y then 29 else 28)
      else if m = 4 \<or> m = 6 \<or> m = 9 \<or> m = 11 then 30 else 31)"

definition days_before_month :: "int \<Rightarrow> int \<Rightarrow> int" where
  "days_before_month y m = sum_list (map (days_in_month y) [1..m - 1])"

definition ymd2ord :: "int \<Rightarrow> int \<Rightarrow> int \<Rightarrow> int" where
  "ymd2ord y m d = days_before_year y + days_before_month y m + d"

definition midnight :: "int \<Rightarrow> int \<Rightarrow> int \<Rightarrow> datetime" where
  "midnight y m d = ymd2ord y m d * microseconds_per_day"

definition ascii_digit :: "char \<Rightarrow> bool" where
  "ascii_digit c = (48 \<le> (of_char c :: nat) \<and> (of_char c :: nat) \<le> 57)"

definition decimal :: "string \<Rightarrow> int" where
  "decimal s = foldl (\<lambda>acc c. 10 * acc + (int (of_char c) - 48)) 0 s"

definition fromisoformat_date :: "string \<Rightarrow> parsed" where
  "fromisoformat_date s =
     (if length s = 10 \<and> s ! 4 = CHR ''-'' \<and> s ! 7 = CHR ''-'' \<and>
         list_all ascii_digit (take 4 s @ take 2 (drop 5 s) @ drop 8 s)
      then
        let y = decimal (take 4 s); m = decimal (take 2 (drop 5 s)); d = decimal (drop 8 s)
        in if 1 \<le> y \<and> 1 \<le> m \<and> m \<le> 12 \<and> 1 \<le> d \<and> d \<le> days_in_month y m
           then Naive (midnight y m d) else Unparseable
      else Unparseable)"

section \<open>The WHOIS record\<close>

text \<open>
  The dict that \<open>lookup_whois\<close> returns. \<open>registrant_email\<close> can hold the first element
  of a list as it is, so it is a raw scalar; the other fields are strings or \<open>None\<close>.
\<close>

datatype scalar =
    SNone
  | SStr string
  | SDatetime (iso_date: string) (str_form: string)
  | SObj (str_form: string) (truth: bool)

datatype raw = Scalar scalar | RList "scalar list"

record whois_info =
  registrar :: "string option"
  creation_date :: "string option"
  expiration_date :: "string option"
  name_servers :: "string list"
  registrant :: "string option"
  registrant_email :: scalar

definition empty_info :: whois_info where
  "empty_info =
     \<lparr>registrar = None, creation_date = None, expiration_date = None, name_servers = [],
      registrant = None, registrant_email = SNone\<rparr>"

section \<open>Status determination\<close>

definition has_whois :: "whois_info \<Rightarrow> bool" where
  "has_whois w =
     (truthy (registrar w) \<or> truthy (creation_date w) \<or> truthy (expiration_date w) \<or>
      name_servers w \<noteq> [])"

text \<open>
  The block under \<open>if expiration:\<close>. \<open>Some v\<close> is a \<open>return v\<close>; \<open>None\<close> is falling out of
  the block, also through the \<open>except (ValueError, TypeError): pass\<close>.
\<close>

definition expiration_verdict ::
  "(string \<Rightarrow> parsed) \<Rightarrow> datetime \<Rightarrow> bool \<Rightarrow> string option \<Rightarrow> string option" where
  "expiration_verdict fromisoformat now has_http expiration =
     (if truthy expiration then
        (case fromisoformat (or_empty expiration) of
           Unparseable \<Rightarrow> None
         | Aware t \<Rightarrow> None
         | Naive exp_date \<Rightarrow>
             if exp_date < now then Some ''expired''
             else if \<not> has_http then Some ''parked''
             else None)
      else None)"

definition determine_status ::
  "(string \<Rightarrow> parsed) \<Rightarrow> datetime \<Rightarrow> http_result \<Rightarrow> whois_info \<Rightarrow> string \<Rightarrow> string" where
  "determine_status fromisoformat now http_result whois_info domain =
     (if domain \<in> set KNOWN_ACTIVE_DOMAINS then ''active''
      else
        let has_http = (http_status_code http_result \<noteq> None)
        in if truthy (redirect_url http_result) then ''redirect''
           else if is_for_sale http_result then ''for_sale''
           else if is_parked http_result then ''parked''
           else if has_http \<and>
                   (case http_status_code http_result of
                      None \<Rightarrow> False | Some code \<Rightarrow> 200 \<le> code \<and> code < 400)
                then ''active''
           else
             (case expiration_verdict fromisoformat now has_http (expiration_date whois_info) of
                Some verdict \<Rightarrow> verdict
              | None \<Rightarrow>
                  if \<not> has_whois whois_info \<and> \<not> has_http then ''available''
                  else if \<not> has_http \<and> has_whois whois_info then ''expired''
                  else ''active''))"

section \<open>WHOIS lookup\<close>

text \<open>
  What the \<open>whois\<close> library hands back for one field: \<open>None\<close>, a string, a \<open>datetime\<close>
  (kept as its calendar date in ISO form and its \<open>str()\<close>), an object of another type (kept
  as its \<open>str()\<close> and its truth value), or a list of these. An entry is a dict, and reading
  an attribute of it reads the key, with \<open>None\<close> for a key that is not there.
\<close>

type_synonym whois_entry = "(string \<times> raw) list"

datatype whois_exn = PywhoisError string | OtherException string

type_synonym whois_source = "string \<Rightarrow> whois_exn + whois_entry option"

fun py_str :: "scalar \<Rightarrow> string" where
  "py_str SNone = ''None''"
| "py_str (SStr s) = s"
| "py_str (SDatetime d s) = s"
| "py_str (SObj s t) = s"

fun scalar_truthy :: "scalar \<Rightarrow> bool" where
  "scalar_truthy SNone = False"
| "scalar_truthy (SStr s) = (s \<noteq> [])"
| "scalar_truthy (SDatetime d s) = True"
| "scalar_truthy (SObj s t) = t"

fun raw_truthy :: "raw \<Rightarrow> bool" where
  "raw_truthy (Scalar v) = scalar_truthy v"
| "raw_truthy (RList vs) = (vs \<noteq> [])"

text \<open>\<open>a or b\<close>.\<close>

definition py_or :: "raw \<Rightarrow> raw \<Rightarrow> raw" where
  "py_or a b = (if raw_truthy a then a else b)"

definition getattr :: "whois_entry \<Rightarrow> string \<Rightarrow> raw" where
  "getattr w name = (case map_of w name of None \<Rightarrow> Scalar SNone | Some v \<Rightarrow> v)"

text \<open>\<open>_safe_str\<close>, \<open>_safe_date\<close> and \<open>_safe_list\<close>.\<close>

fun safe_str :: "raw \<Rightarrow> string option" where
  "safe_str (Scalar SNone) = None"
| "safe_str (RList []) = None"
| "safe_str (RList (v # vs)) = Some (py_str v)"
| "safe_str (Scalar v) = Some (py_str v)"

fun safe_date_scalar :: "scalar \<Rightarrow> string option" where
  "safe_date_scalar SNone = None"
| "safe_date_scalar (SDatetime d s) = Some d"
| "safe_date_scalar v = Some (py_str v)"

fun safe_date :: "raw \<Rightarrow> string option" where
  "safe_date (RList []) = None"
| "safe_date (RList (v # vs)) = safe_date_scalar v"
| "safe_date (Scalar v) = safe_date_scalar v"

fun safe_list :: "raw \<Rightarrow> string list" where
  "safe_list (Scalar SNone) = []"
| "safe_list (Scalar (SStr s)) = [s]"
| "safe_list (RList vs) = map (\<lambda>v. lower (py_str v)) vs"
| "safe_list (Scalar v) = [py_str v]"

fun string_scalar :: "string option \<Rightarrow> scalar" where
  "string_scalar None = SNone"
| "string_scalar (Some s) = SStr s"

definition fill_info :: "whois_entry \<Rightarrow> whois_info" where
  "fill_info w =
     (let registrant_raw =
            py_or (getattr w ''org'') (py_or (getattr w ''name'') (getattr w ''registrant_name''));
          email = py_or (getattr w ''emails'') (getattr w ''registrant_email'')
      in \<lparr>registrar = safe_str (getattr w ''registrar''),
          creation_date = safe_date (getattr w ''creation_date''),
          expiration_date = safe_date (getattr w ''expiration_date''),
          name_servers = safe_list (getattr w ''name_servers''),
          registrant = safe_str registrant_raw,
          registrant_email =
            (case email of
               RList [] \<Rightarrow> SNone
             | RList (v # vs) \<Rightarrow> v
             | Scalar v \<Rightarrow> string_scalar (safe_str email))\<rparr>)"

text \<open>
  The body of the \<open>try\<close>: the exception of the library call passes through, the value
  \<open>None\<close> and the empty dict return the initial \<open>info\<close>.
\<close>

definition lookup_whois_try :: "whois_source \<Rightarrow> string \<Rightarrow> whois_exn + whois_info" where
  "lookup_whois_try whois domain =
     (case whois domain of
        Inl exn \<Rightarrow> Inl exn
      | Inr None \<Rightarrow> Inr empty_info
      | Inr (Some w) \<Rightarrow> if w = [] then Inr empty_info else Inr (fill_info w))"

text \<open>
  \<open>lookup_whois\<close>: \<open>Inl\<close> would be an exception that leaves the function. Both handlers
  end in \<open>return info\<close>, and \<open>info\<close> is still the initial dict when the library call is what
  raised (the second handler also writes a debug line to the log).
\<close>

definition lookup_whois :: "whois_source \<Rightarrow> string \<Rightarrow> whois_exn + whois_info" where
  "lookup_whois whois domain =
     (case lookup_whois_try whois domain of
        Inl (PywhoisError msg) \<Rightarrow> Inr empty_info
      | Inl (OtherException msg) \<Rightarrow> Inr empty_info
      | Inr info \<Rightarrow> Inr info)"

section \<open>Recommendation scoring\<close>

text \<open>
  The score is a Python float. Every value it takes is 5 plus a sum of at most seven
  multiples of one half, which floats add without rounding, so it is modelled as a
  rational. The age \<open>days / 365.25\<close> and the vowel ratio are quotients of integers; they are
  only compared with 20, 10, 5, 0.2 and 0.6 and truncated by \<open>int()\<close>, and a quotient that
  is not equal to one of these bounds is further from it than float rounding reaches (for
  any name shorter than \<open>2 ^ 50\<close> characters), so the rational comparison is the float one.
  \<open>round\<close> is Python's: a tie goes to the even neighbour.
\<close>

definition py_round :: "rat \<Rightarrow> int" where
  "py_round x =
     (let f = \<lfloor>x\<rfloor>; d = x - of_int f
      in if d < 1 / 2 then f
         else if d > 1 / 2 then f + 1
         else if even f then f else f + 1)"

text \<open>\<open>str(n)\<close> for a natural number, \<open>sep.join(xs)\<close>, and the two uses of \<open>split(".")\<close>.\<close>

fun str_nat :: "nat \<Rightarrow> string" where
  "str_nat n =
     (if n < 10 then [char_of (48 + n)]
      else str_nat (n div 10) @ [char_of (48 + n mod 10)])"

declare str_nat.simps [simp del]

fun join :: "string \<Rightarrow> string list \<Rightarrow> string" where
  "join sep [] = []"
| "join sep [x] = x"
| "join sep (x # y # ys) = x @ sep @ join sep (y # ys)"

definition split_first :: "string \<Rightarrow> string" where
  "split_first domain = takeWhile (\<lambda>c. c \<noteq> CHR ''.'') domain"

definition split_last :: "string \<Rightarrow> string" where
  "split_last domain = rev (takeWhile (\<lambda>c. c \<noteq> CHR ''.'') (rev domain))"

text \<open>
  Each block of \<open>score_domain\<close> is one rule: the amount it adds to \<open>score\<close> and the reasons
  it appends. The age rule also gives \<open>domain_age_years\<close>, which stays 0 when the creation
  date is missing, does not parse, or is timezone-aware (the subtraction raises and the
  \<open>except\<close> passes).
\<close>

type_synonym adjustment = "rat \<times> string list"

definition age_rule :: "(string \<Rightarrow> parsed) \<Rightarrow> datetime \<Rightarrow> whois_info \<Rightarrow> rat \<times> adjustment" where
  "age_rule fromisoformat now whois_info =
     (if truthy (creation_date whois_info) then
        (case fromisoformat (or_empty (creation_date whois_info)) of
           Unparseable \<Rightarrow> (0, (0, []))
         | Aware t \<Rightarrow> (0, (0, []))
         | Naive creation \<Rightarrow>
             let domain_age_years = of_int (delta_days now creation) / (1461 / 4);
                 years = str_nat (nat \<lfloor>domain_age_years\<rfloor>)
             in if domain_age_years \<ge> 20
                then (domain_age_years, (2, [''Very old domain ('' @ years @ '' years)'']))
                else if domain_age_years \<ge> 10
                then (domain_age_years, (3 / 2, [''Established domain ('' @ years @ '' years)'']))
                else if domain_age_years \<ge> 5
                then (domain_age_years, (1 / 2, [''Moderate age ('' @ years @ '' years)'']))
                else (domain_age_years, (0, [])))
      else (0, (0, [])))"

definition length_rule :: "nat \<Rightarrow> adjustment" where
  "length_rule name_len =
     (if name_len \<le> 3 then (2, [''Ultra-short name ('' @ str_nat name_len @ '' chars)''])
      else if name_len \<le> 5 then (3 / 2, [''Short name ('' @ str_nat name_len @ '' chars)''])
      else if name_len \<le> 8 then (1 / 2, [''Concise name''])
      else if name_len \<ge> 15 then (- 1, [''Long name reduces memorability''])
      else (0, []))"

definition tld_rule :: "string \<Rightarrow> adjustment" where
  "tld_rule domain =
     (if endswith domain ''.com'' then (1, [''.com TLD premium''])
      else if py_any (\<lambda>suffix. endswith domain suffix) [''.io'', ''.ai'', ''.co'']
      then (1 / 2, [''Desirable TLD ('' @ split_last domain @ '')''])
      else (0, []))"

definition popularity_rule :: "nat \<Rightarrow> adjustment" where
  "popularity_rule year_count =
     (if year_count \<ge> 5
      then (3 / 2, [''Appeared in '' @ str_nat year_count @ '' years of top lists''])
      else if year_count \<ge> 3
      then (1, [''Appeared in '' @ str_nat year_count @ '' years of top lists''])
      else if year_count \<ge> 2
      then (1 / 2, [''Appeared in '' @ str_nat year_count @ '' years of top lists''])
      else (0, []))"

definition keyword_rule :: "string \<Rightarrow> adjustment" where
  "keyword_rule name_lower =
     (let matched_keywords = filter (\<lambda>kw. contains name_lower kw) HIGH_VALUE_KEYWORDS
      in if matched_keywords \<noteq> []
         then (min (of_nat (length matched_keywords) * (1 / 2)) (3 / 2),
               [''High-value keywords: '' @ join '', '' (take 3 matched_keywords)])
         else (0, []))"

definition brandability_rule :: "string \<Rightarrow> adjustment" where
  "brandability_rule name_lower =
     (let vowel_ratio =
            (of_nat (length (filter (\<lambda>c. c \<in> set ''aeiou'') name_lower)) :: rat) /
            of_nat (max (length name_lower) 1);
          hyphen_count = length (filter (\<lambda>c. c = CHR ''-'') name_lower);
          digit_count = length (filter isdigit name_lower)
      in if 1 / 5 \<le> vowel_ratio \<and> vowel_ratio \<le> 3 / 5 \<and> hyphen_count = 0 \<and> digit_count = 0
         then (1 / 2, [''Good brandability (pronounceable, clean)''])
         else if hyphen_count \<ge> 2 \<or> digit_count \<ge> 3
         then (- (1 / 2), [''Low brandability (hyphens/digits)''])
         else (0, []))"

definition status_rule :: "string \<Rightarrow> adjustment" where
  "status_rule status =
     (if status = ''available'' then (1 / 2, [''Potentially available for registration''])
      else if status = ''for_sale'' then (0, [''Listed for sale -- acquisition possible''])
      else if status = ''active'' then (- (1 / 2), [''Currently active -- acquisition unlikely''])
      else (0, []))"

text \<open>The seven rules in the order of the source.\<close>

definition adjustments ::
  "(string \<Rightarrow> parsed) \<Rightarrow> datetime \<Rightarrow> string \<Rightarrow> int list \<Rightarrow> string \<Rightarrow> whois_info \<Rightarrow> adjustment list" where
  "adjustments fromisoformat now domain years_popular status whois_info =
     (let name_part = split_first domain;
          name_lower = lower name_part
      in [snd (age_rule fromisoformat now whois_info),
          length_rule (length name_part),
          tld_rule domain,
          popularity_rule (length years_popular),
          keyword_rule name_lower,
          brandability_rule name_lower,
          status_rule status])"

text \<open>The value of \<open>score\<close> when the source reaches \<open># Clamp score\<close>.\<close>

definition unclamped_score ::
  "(string \<Rightarrow> parsed) \<Rightarrow> datetime \<Rightarrow> string \<Rightarrow> int list \<Rightarrow> string \<Rightarrow> whois_info \<Rightarrow> rat" where
  "unclamped_score fromisoformat now domain years_popular status whois_info =
     foldl (\<lambda>score a. score + fst a) 5
       (adjustments fromisoformat now domain years_popular status whois_info)"

definition ranges :: "(int \<times> string) list" where
  "ranges =
     [(1, ''$0-$100''), (2, ''$100-$500''), (3, ''$500-$1,000''), (4, ''$1,000-$2,500''),
      (5, ''$2,500-$5,000''), (6, ''$5,000-$10,000''), (7, ''$10,000-$25,000''),
      (8, ''$25,000-$50,000''), (9, ''$50,000-$100,000''), (10, ''$100,000+'')]"

text \<open>\<open>_estimate_value\<close>.\<close>

definition estimate_value :: "int \<Rightarrow> rat \<Rightarrow> nat \<Rightarrow> string \<Rightarrow> string" where
  "estimate_value score age_years name_len status =
     (if status = ''available'' then ''$10-$15 (registration cost)''
      else case map_of ranges score of None \<Rightarrow> ''$1,000-$5,000'' | Some v \<Rightarrow> v)"

record recommendation =
  score :: int
  reason :: string
  estimated_value :: string

definition score_domain ::
  "(string \<Rightarrow> parsed) \<Rightarrow> datetime \<Rightarrow> string \<Rightarrow> int list \<Rightarrow> string \<Rightarrow> whois_info \<Rightarrow> recommendation" where
  "score_domain fromisoformat now domain years_popular status whois_info =
     (let rules = adjustments fromisoformat now domain years_popular status whois_info;
          reasons = concat (map snd rules);
          final_score =
            max 1 (min 10 (py_round
              (unclamped_score fromisoformat now domain years_popular status whois_info)));
          domain_age_years = fst (age_rule fromisoformat now whois_info);
          name_len = length (split_first domain)
      in \<lparr>score = final_score,
          reason = join ''; '' (if reasons = [] then [''Standard domain''] else reasons),
          estimated_value = estimate_value final_score domain_age_years name_len status\<rparr>)"

section \<open>Facts about the string helpers\<close>

lemma startswith_append: "startswith (p @ s) p"
  by (induction p) auto

lemma contains_prefix: "contains (p @ s) p"
  using startswith_append [of p s] by (cases "p @ s") auto

lemma stripped_len_append_replicate:
  "c \<noteq> CHR '' '' \<Longrightarrow> stripped_len (xs @ replicate n c) = stripped_len xs + n"
  by (simp add: stripped_len_def filter_replicate)

lemma lower_empty_iff: "lower s = [] \<longleftrightarrow> s = []"
  by (simp add: lower_def)

section \<open>Content analysis\<close>

lemma analyse_keeps_for_sale_parked:
  assumes "is_for_sale result \<longrightarrow> is_parked result"
  shows "is_for_sale (analyse_page_content result body raw_html) \<longrightarrow>
         is_parked (analyse_page_content result body raw_html)"
  using assms by (simp add: analyse_page_content_def Let_def split: option.split)

lemma probed_flags:
  "is_parked (probed url redirect title body) = False"
  "is_for_sale (probed url redirect title body) = False"
  "sale_platform (probed url redirect title body) = None"
  "page_title (probed url redirect title body) = title"
  by (simp_all add: probed_def initial_result_def)

lemma sale_phrase_sets_both_flags:
  assumes "\<not> is_real_site result body"
    and "py_any (\<lambda>phrase. contains body phrase) sale_phrases"
  shows "is_for_sale (analyse_page_content result body raw_html) \<and>
         is_parked (analyse_page_content result body raw_html)"
  using assms by (simp add: analyse_page_content_def Let_def split: option.split)

lemma title_word_blocks_real_site:
  assumes "py_any (\<lambda>w. contains (lower (or_empty (page_title result))) w) title_words"
  shows "\<not> is_real_site result body"
  using assms by (simp add: is_real_site_def Let_def)

text \<open>
  C3. For every title and body text, the result of the content analysis on the dict that
  the probe built satisfies: if the for-sale flag is set, the parked flag is set.
\<close>

theorem for_sale_implies_parked:
  "is_for_sale (analyse_page_content (probed url redirect title body) body raw_html) \<longrightarrow>
   is_parked (analyse_page_content (probed url redirect title body) body raw_html)"
  by (rule analyse_keeps_for_sale_parked) (simp add: probed_flags)

theorem for_sale_implies_parked_witness:
  "is_for_sale
     (analyse_page_content
        (probed (Some ''https://ahoy.example/'') None (Some ''Ahoy - Welcome'')
           ''this domain is for sale. make an offer today.'')
        ''this domain is for sale. make an offer today.'' []) \<and>
   is_parked
     (analyse_page_content
        (probed (Some ''https://ahoy.example/'') None (Some ''Ahoy - Welcome'')
           ''this domain is for sale. make an offer today.'')
        ''this domain is for sale. make an offer today.'' [])"
proof -
  have sale: "is_for_sale
     (analyse_page_content
        (probed (Some ''https://ahoy.example/'') None (Some ''Ahoy - Welcome'')
           ''this domain is for sale. make an offer today.'')
        ''this domain is for sale. make an offer today.'' [])"
    by code_simp
  with for_sale_implies_parked
         [of "Some ''https://ahoy.example/''" None "Some ''Ahoy - Welcome''"
             "''this domain is for sale. make an offer today.''" "[]"]
  show ?thesis by blast
qed

text \<open>
  C6, as the code has it. When the body without its spaces is longer than 5000
  characters, the title is not empty and the lower-cased title contains none of "domain",
  "parked", "for sale", "coming soon", the analysis returns the probe's dict unchanged:
  parked and for-sale stay unset and no sale platform is recorded, whatever the body
  contains.
\<close>

theorem real_site_early_exit:
  assumes "stripped_len body > 5000"
    and "title \<noteq> []"
    and "\<not> py_any (\<lambda>w. contains (lower title) w) title_words"
  shows "analyse_page_content (probed url redirect (Some title) body) body raw_html =
           probed url redirect (Some title) body \<and>
         \<not> is_parked (analyse_page_content (probed url redirect (Some title) body) body raw_html) \<and>
         \<not> is_for_sale (analyse_page_content (probed url redirect (Some title) body) body raw_html) \<and>
         sale_platform (analyse_page_content (probed url redirect (Some title) body) body raw_html) = None"
proof -
  have "is_real_site (probed url redirect (Some title) body) body"
    using assms by (simp add: is_real_site_def Let_def probed_flags lower_empty_iff)
  then have "analyse_page_content (probed url redirect (Some title) body) body raw_html =
               probed url redirect (Some title) body"
    by (simp add: analyse_page_content_def)
  then show ?thesis by (simp add: probed_flags)
qed

theorem real_site_early_exit_witness:
  "analyse_page_content
     (probed None None (Some ''Acme Corp - Global Logistics'')
        (''buy this domain on godaddy '' @ replicate 6000 (CHR ''x'')))
     (''buy this domain on godaddy '' @ replicate 6000 (CHR ''x'')) [] =
   probed None None (Some ''Acme Corp - Global Logistics'')
     (''buy this domain on godaddy '' @ replicate 6000 (CHR ''x''))"
proof -
  have "stripped_len ''buy this domain on godaddy '' = 22" by code_simp
  then have len: "stripped_len (''buy this domain on godaddy '' @ replicate 6000 (CHR ''x'')) > 5000"
    using stripped_len_append_replicate [of "CHR ''x''" "''buy this domain on godaddy ''" 6000]
    by simp
  have title: "''Acme Corp - Global Logistics'' \<noteq> []" by simp
  have words: "\<not> py_any (\<lambda>w. contains (lower ''Acme Corp - Global Logistics'') w) title_words"
    by code_simp
  from real_site_early_exit [OF len title words, of None None "[]"]
  show ?thesis by blast
qed

text \<open>
  C6 as stated fails on a title that has one of the four words only in capitals: the
  title "Acme Domains" contains none of the four substrings, the body has 5014 characters
  other than spaces, and the analysis still runs and sets both flags.
\<close>

theorem real_site_title_case_counterexample:
  "stripped_len (''buy this domain '' @ replicate 5001 (CHR ''x'')) > 5000 \<and>
   ''Acme Domains'' \<noteq> [] \<and>
   \<not> py_any (\<lambda>w. contains ''Acme Domains'' w) title_words \<and>
   is_for_sale
     (analyse_page_content
        (probed None None (Some ''Acme Domains'') (''buy this domain '' @ replicate 5001 (CHR ''x'')))
        (''buy this domain '' @ replicate 5001 (CHR ''x'')) []) \<and>
   is_parked
     (analyse_page_content
        (probed None None (Some ''Acme Domains'') (''buy this domain '' @ replicate 5001 (CHR ''x'')))
        (''buy this domain '' @ replicate 5001 (CHR ''x'')) [])"
proof -
  let ?body = "''buy this domain '' @ replicate 5001 (CHR ''x'')"
  have "stripped_len ''buy this domain '' = 13" by code_simp
  then have len: "stripped_len ?body > 5000"
    using stripped_len_append_replicate [of "CHR ''x''" "''buy this domain ''" 5001] by simp
  have literal: "\<not> py_any (\<lambda>w. contains ''Acme Domains'' w) title_words"
    by code_simp
  have "py_any (\<lambda>w. contains (lower ''Acme Domains'') w) title_words"
    by code_simp
  then have not_real: "\<not> is_real_site (probed None None (Some ''Acme Domains'') ?body) ?body"
    by (intro title_word_blocks_real_site) (simp add: probed_flags)
  have "?body = ''buy this domain'' @ ('' '' @ replicate 5001 (CHR ''x''))"
    by simp
  then have "contains ?body ''buy this domain''"
    using contains_prefix [of "''buy this domain''" "'' '' @ replicate 5001 (CHR ''x'')"]
    by simp
  then have "py_any (\<lambda>phrase. contains ?body phrase) sale_phrases"
    by (simp add: sale_phrases_def)
  from sale_phrase_sets_both_flags [OF not_real this, of "[]"] len literal
  show ?thesis by simp
qed

section \<open>Status determination\<close>

text \<open>
  The order of the tests. The allow-list comes first, then the redirect URL, the for-sale
  flag, the parked flag and a status code in [200,400); each of them decides the verdict
  when the earlier ones did not.
\<close>

lemma determine_status_first_five:
  "domain \<in> set KNOWN_ACTIVE_DOMAINS \<Longrightarrow> determine_status f now r w domain = ''active''"
  "domain \<notin> set KNOWN_ACTIVE_DOMAINS \<Longrightarrow> truthy (redirect_url r) \<Longrightarrow>
     determine_status f now r w domain = ''redirect''"
  "domain \<notin> set KNOWN_ACTIVE_DOMAINS \<Longrightarrow> \<not> truthy (redirect_url r) \<Longrightarrow> is_for_sale r \<Longrightarrow>
     determine_status f now r w domain = ''for_sale''"
  "domain \<notin> set KNOWN_ACTIVE_DOMAINS \<Longrightarrow> \<not> truthy (redirect_url r) \<Longrightarrow> \<not> is_for_sale r \<Longrightarrow>
     is_parked r \<Longrightarrow> determine_status f now r w domain = ''parked''"
  "domain \<notin> set KNOWN_ACTIVE_DOMAINS \<Longrightarrow> \<not> truthy (redirect_url r) \<Longrightarrow> \<not> is_for_sale r \<Longrightarrow>
     \<not> is_parked r \<Longrightarrow> http_status_code r = Some code \<Longrightarrow> 200 \<le> code \<Longrightarrow> code < 400 \<Longrightarrow>
     determine_status f now r w domain = ''active''"
  by (simp_all add: determine_status_def)

text \<open>
  With no HTTP status, and none of the first five tests deciding: a usable expiration date
  gives \<open>expired\<close> or \<open>parked\<close>; without one, the verdict is \<open>available\<close> when the WHOIS
  record has no signal and \<open>expired\<close> when it has one.
\<close>

lemma determine_status_without_http:
  assumes "domain \<notin> set KNOWN_ACTIVE_DOMAINS"
    and "\<not> truthy (redirect_url r)" and "\<not> is_for_sale r" and "\<not> is_parked r"
    and "http_status_code r = None"
  shows "determine_status f now r w domain =
           (if truthy (expiration_date w) \<and>
               (\<exists>t. f (or_empty (expiration_date w)) = Naive t \<and> t < now)
            then ''expired''
            else if truthy (expiration_date w) \<and>
               (\<exists>t. f (or_empty (expiration_date w)) = Naive t)
            then ''parked''
            else if \<not> has_whois w then ''available'' else ''expired'')"
  using assms
  by (auto simp add: determine_status_def expiration_verdict_def split: parsed.splits)

text \<open>
  With an HTTP status outside [200,400), and none of the first four tests deciding: the
  test of the expiration date against the clock is still made, and only when it does not
  give \<open>expired\<close> does the fallback \<open>active\<close> apply.
\<close>

lemma determine_status_with_error_code:
  assumes "domain \<notin> set KNOWN_ACTIVE_DOMAINS"
    and "\<not> truthy (redirect_url r)" and "\<not> is_for_sale r" and "\<not> is_parked r"
    and "http_status_code r = Some code" and "\<not> (200 \<le> code \<and> code < 400)"
  shows "determine_status f now r w domain =
           (if truthy (expiration_date w) \<and>
               (\<exists>t. f (or_empty (expiration_date w)) = Naive t \<and> t < now)
            then ''expired'' else ''active'')"
  using assms
  by (auto simp add: determine_status_def expiration_verdict_def split: parsed.splits)

text \<open>
  C1. The claim: the ten rules are tried in order, and for a domain outside the
  known-active list, with no redirect URL, neither flag set and an HTTP status code
  outside [200,400), the verdict is \<open>active\<close> by the fallback, since the WHOIS rules 6 to 9
  need the HTTP status to be absent. The code does otherwise at this input: the domain
  "example.org" answers 404 and its WHOIS expiration date 2020-01-01 has passed on
  2026-11-03, and the verdict is \<open>expired\<close>. The test \<open>exp_date < datetime.now()\<close> is the
  only one of the four WHOIS tests written without \<open>not has_http\<close>, under the comment
  "No HTTP response -- check WHOIS".
\<close>

theorem determine_status_expired_despite_http:
  "''example.org'' \<notin> set KNOWN_ACTIVE_DOMAINS \<and>
   redirect_url (initial_result\<lparr>http_status_code := Some 404\<rparr>) = None \<and>
   \<not> is_for_sale (initial_result\<lparr>http_status_code := Some 404\<rparr>) \<and>
   \<not> is_parked (initial_result\<lparr>http_status_code := Some 404\<rparr>) \<and>
   determine_status fromisoformat_date (midnight 2026 11 3)
     (initial_result\<lparr>http_status_code := Some 404\<rparr>)
     (empty_info\<lparr>registrar := Some ''Example Registrar'',
                 expiration_date := Some ''2020-01-01''\<rparr>)
     ''example.org'' = ''expired''"
  by code_simp

theorem determine_status_expired_despite_http_witness:
  "determine_status fromisoformat_date (midnight 2026 11 3)
     (initial_result\<lparr>http_status_code := Some 404\<rparr>)
     (empty_info\<lparr>registrar := Some ''Example Registrar'',
                 expiration_date := Some ''2020-01-01''\<rparr>)
     ''example.org'' \<noteq> ''active''"
  using determine_status_expired_despite_http by simp

text \<open>
  C2, as the code has it. The verdict depends on the clock only through the comparison
  with the parsed expiration date: two calls with the same probe result, WHOIS record and
  domain return the same verdict whenever the expiration date, if it parses to a naive
  datetime, lies before both clock readings or before neither.
\<close>

theorem determine_status_same_side:
  assumes "\<And>t. f (or_empty (expiration_date w)) = Naive t \<Longrightarrow> (t < now1) = (t < now2)"
  shows "determine_status f now1 r w domain = determine_status f now2 r w domain"
  using assms
  by (auto simp add: determine_status_def expiration_verdict_def
           split: parsed.splits option.splits)

theorem determine_status_same_side_witness:
  "determine_status fromisoformat_date (midnight 2026 11 3) initial_result
     (empty_info\<lparr>expiration_date := Some ''2027-01-01''\<rparr>) ''example.org'' =
   determine_status fromisoformat_date (midnight 2026 11 4) initial_result
     (empty_info\<lparr>expiration_date := Some ''2027-01-01''\<rparr>) ''example.org''"
proof -
  let ?w = "empty_info\<lparr>expiration_date := Some ''2027-01-01''\<rparr>"
  have p: "fromisoformat_date ''2027-01-01'' = Naive (midnight 2027 1 1)"
    by code_simp
  have a: "\<not> midnight 2027 1 1 < midnight 2026 11 3" by code_simp
  have b: "\<not> midnight 2027 1 1 < midnight 2026 11 4" by code_simp
  have "\<And>t. fromisoformat_date (or_empty (expiration_date ?w)) = Naive t \<Longrightarrow>
          (t < midnight 2026 11 3) = (t < midnight 2026 11 4)"
    using a b by (auto simp add: p)
  then show ?thesis by (rule determine_status_same_side)
qed

text \<open>
  C2 as stated fails: the function reads the clock. The same probe result (no HTTP
  response), WHOIS record (expiring on 2027-01-01) and domain give \<open>parked\<close> on 2026-11-03
  and \<open>expired\<close> on 2027-11-03.
\<close>

theorem determine_status_clock_counterexample:
  "determine_status fromisoformat_date (midnight 2026 11 3) initial_result
     (empty_info\<lparr>expiration_date := Some ''2027-01-01''\<rparr>) ''example.org'' = ''parked'' \<and>
   determine_status fromisoformat_date (midnight 2027 11 3) initial_result
     (empty_info\<lparr>expiration_date := Some ''2027-01-01''\<rparr>) ''example.org'' = ''expired''"
  by code_simp

text \<open>
  C5. For a domain outside the known-active list and a probe result whose redirect URL is
  set (a non-empty string), the verdict is \<open>redirect\<close>, whatever the flags and the WHOIS
  record are.
\<close>

theorem determine_status_redirect:
  assumes "domain \<notin> set KNOWN_ACTIVE_DOMAINS"
    and "redirect_url r = Some url" and "url \<noteq> []"
  shows "determine_status f now r w domain = ''redirect''"
  using assms by (simp add: determine_status_def)

theorem determine_status_redirect_witness:
  "determine_status fromisoformat_date (midnight 2026 11 3)
     (initial_result\<lparr>http_status_code := Some 200,
                     redirect_url := Some ''https://www.example.org/'',
                     is_parked := True, is_for_sale := True\<rparr>)
     (empty_info\<lparr>expiration_date := Some ''2020-01-01''\<rparr>)
     ''example.net'' = ''redirect''"
proof -
  have 1: "''example.net'' \<notin> set KNOWN_ACTIVE_DOMAINS" by code_simp
  have 2: "redirect_url
             (initial_result\<lparr>http_status_code := Some 200,
                             redirect_url := Some ''https://www.example.org/'',
                             is_parked := True, is_for_sale := True\<rparr>) =
           Some ''https://www.example.org/''"
    by simp
  have 3: "''https://www.example.org/'' \<noteq> []" by simp
  show ?thesis by (rule determine_status_redirect [OF 1 2 3])
qed

section \<open>WHOIS lookup\<close>

text \<open>
  C8. \<open>lookup_whois\<close> never raises: for every library behaviour and every domain it returns
  a record. When the library call raises, for a record that is not found or for any other
  failure, and when it returns \<open>None\<close>, the record is the all-absent one: every field
  \<open>None\<close> and no nameservers.
\<close>

theorem lookup_whois_never_raises:
  "(\<exists>info. lookup_whois whois domain = Inr info) \<and>
   ((\<exists>exn. whois domain = Inl exn) \<or> whois domain = Inr None \<longrightarrow>
      lookup_whois whois domain =
        Inr \<lparr>registrar = None, creation_date = None, expiration_date = None,
             name_servers = [], registrant = None, registrant_email = SNone\<rparr>)"
  by (auto simp add: lookup_whois_def lookup_whois_try_def empty_info_def
           split: sum.splits option.splits whois_exn.splits)

theorem lookup_whois_never_raises_witness:
  "lookup_whois
     (\<lambda>d. if d = ''taken.example''
          then Inr (Some [(''registrar'', Scalar (SStr ''Example Registrar''))])
          else if d = ''free.example'' then Inl (PywhoisError ''No match for domain'')
          else Inl (OtherException ''Connection reset by peer''))
     ''free.example'' =
   Inr \<lparr>registrar = None, creation_date = None, expiration_date = None,
        name_servers = [], registrant = None, registrant_email = SNone\<rparr> \<and>
   lookup_whois
     (\<lambda>d. if d = ''taken.example''
          then Inr (Some [(''registrar'', Scalar (SStr ''Example Registrar''))])
          else if d = ''free.example'' then Inl (PywhoisError ''No match for domain'')
          else Inl (OtherException ''Connection reset by peer''))
     ''down.example'' =
   Inr \<lparr>registrar = None, creation_date = None, expiration_date = None,
        name_servers = [], registrant = None, registrant_email = SNone\<rparr>"
proof -
  let ?whois = "\<lambda>d. if d = ''taken.example''
          then Inr (Some [(''registrar'', Scalar (SStr ''Example Registrar''))])
          else if d = ''free.example'' then Inl (PywhoisError ''No match for domain'')
          else Inl (OtherException ''Connection reset by peer'')"
  have a: "(\<exists>exn. ?whois ''free.example'' = Inl exn) \<or> ?whois ''free.example'' = Inr None"
    by simp
  have b: "(\<exists>exn. ?whois ''down.example'' = Inl exn) \<or> ?whois ''down.example'' = Inr None"
    by simp
  from lookup_whois_never_raises [of ?whois "''free.example''"] a
    lookup_whois_never_raises [of ?whois "''down.example''"] b
  show ?thesis by blast
qed

section \<open>Recommendation scoring\<close>

lemma py_round_ge_floor: "\<lfloor>x\<rfloor> \<le> py_round x"
  by (simp add: py_round_def Let_def)

lemma py_round_lower:
  assumes "of_int k \<le> x"
  shows "k \<le> py_round x"
proof -
  from assms have "k \<le> \<lfloor>x\<rfloor>" by (simp add: le_floor_iff)
  also have "\<dots> \<le> py_round x" by (rule py_round_ge_floor)
  finally show ?thesis .
qed

lemma age_rule_nonneg: "0 \<le> fst (snd (age_rule f now w))"
  by (simp add: age_rule_def Let_def split: parsed.split)

lemma length_rule_lower: "- 1 \<le> fst (length_rule n)"
  by (simp add: length_rule_def)

lemma tld_rule_nonneg: "0 \<le> fst (tld_rule d)"
  by (simp add: tld_rule_def)

lemma popularity_rule_nonneg: "0 \<le> fst (popularity_rule n)"
  by (simp add: popularity_rule_def)

lemma keyword_rule_nonneg: "0 \<le> fst (keyword_rule s)"
  by (simp add: keyword_rule_def Let_def)

lemma brandability_rule_lower: "- (1 / 2) \<le> fst (brandability_rule s)"
  by (simp add: brandability_rule_def Let_def)

lemma status_rule_lower: "- (1 / 2) \<le> fst (status_rule s)"
  by (simp add: status_rule_def)

lemma unclamped_score_sum:
  "unclamped_score f now d ys st w =
     5 + fst (snd (age_rule f now w)) + fst (length_rule (length (split_first d))) +
     fst (tld_rule d) + fst (popularity_rule (length ys)) +
     fst (keyword_rule (lower (split_first d))) +
     fst (brandability_rule (lower (split_first d))) + fst (status_rule st)"
  by (simp add: unclamped_score_def adjustments_def Let_def)

lemma unclamped_score_lower: "3 \<le> unclamped_score f now d ys st w"
  using age_rule_nonneg [of f now w] length_rule_lower [of "length (split_first d)"]
    tld_rule_nonneg [of d] popularity_rule_nonneg [of "length ys"]
    keyword_rule_nonneg [of "lower (split_first d)"]
    brandability_rule_lower [of "lower (split_first d)"] status_rule_lower [of st]
  unfolding unclamped_score_sum by linarith

lemma score_is_clamped_round:
  "score (score_domain f now d ys st w) =
     max 1 (min 10 (py_round (unclamped_score f now d ys st w)))"
  by (simp add: score_domain_def Let_def)

text \<open>
  C4. For every domain name, years-popular list, status and WHOIS record (and every
  clock reading and date parser), the score is an integer between 1 and 10.
\<close>

theorem score_in_range:
  "1 \<le> score (score_domain f now d ys st w) \<and> score (score_domain f now d ys st w) \<le> 10"
  by (simp add: score_is_clamped_round)

theorem score_in_range_witness:
  "1 \<le> score (score_domain fromisoformat_date (midnight 2026 11 3) ''cloudbank.com''
              [2001, 2002, 2003, 2004, 2005, 2006] ''available''
              (empty_info\<lparr>creation_date := Some ''1996-11-03''\<rparr>)) \<and>
   score (score_domain fromisoformat_date (midnight 2026 11 3) ''cloudbank.com''
            [2001, 2002, 2003, 2004, 2005, 2006] ''available''
            (empty_info\<lparr>creation_date := Some ''1996-11-03''\<rparr>)) \<le> 10"
  by (rule score_in_range)

text \<open>
  C10. For every input the score is at least 3, so \<open>score_domain\<close> never returns the
  lower clamp bound 1: the rules take away at most 1 for the name length, one half for
  brandability and one half for an active status from the base 5.
\<close>

theorem score_at_least_three:
  "3 \<le> score (score_domain f now d ys st w) \<and> score (score_domain f now d ys st w) \<noteq> 1"
proof -
  have "3 \<le> py_round (unclamped_score f now d ys st w)"
    using unclamped_score_lower [of f now d ys st w] by (intro py_round_lower) simp
  then show ?thesis
    by (simp add: score_is_clamped_round)
qed

theorem score_at_least_three_witness:
  "3 \<le> score (score_domain fromisoformat_date (midnight 2026 11 3)
              ''north-south-east-west.org'' [] ''active'' empty_info) \<and>
   score (score_domain fromisoformat_date (midnight 2026 11 3)
            ''north-south-east-west.org'' [] ''active'' empty_info) \<noteq> 1"
  by (rule score_at_least_three)

lemma score_three_is_reached:
  "score (score_domain fromisoformat_date (midnight 2026 11 3)
            ''north-south-east-west.org'' [] ''active'' empty_info) = 3"
  by code_simp

text \<open>
  C7. For each score from 1 to 10 the estimated value is the entry of the fixed table,
  except that the status \<open>available\<close> gives the flat registration-cost string whatever the
  score is.
\<close>

theorem estimate_value_table:
  "estimate_value s age n ''available'' = ''$10-$15 (registration cost)'' \<and>
   (status \<noteq> ''available'' \<longrightarrow>
      estimate_value 1 age n status = ''$0-$100'' \<and>
      estimate_value 2 age n status = ''$100-$500'' \<and>
      estimate_value 3 age n status = ''$500-$1,000'' \<and>
      estimate_value 4 age n status = ''$1,000-$2,500'' \<and>
      estimate_value 5 age n status = ''$2,500-$5,000'' \<and>
      estimate_value 6 age n status = ''$5,000-$10,000'' \<and>
      estimate_value 7 age n status = ''$10,000-$25,000'' \<and>
      estimate_value 8 age n status = ''$25,000-$50,000'' \<and>
      estimate_value 9 age n status = ''$50,000-$100,000'' \<and>
      estimate_value 10 age n status = ''$100,000+'')"
  by (simp add: estimate_value_def ranges_def)

theorem estimate_value_table_witness:
  "estimate_value 7 0 7 ''parked'' = ''$10,000-$25,000'' \<and>
   estimate_value 10 0 7 ''parked'' = ''$100,000+'' \<and>
   estimate_value 7 0 7 ''available'' = ''$10-$15 (registration cost)''"
proof -
  have "''parked'' \<noteq> ''available''" by simp
  with estimate_value_table [of 7 0 7 "''parked''"] show ?thesis by blast
qed

section \<open>The scenario "ab.io"\<close>

lemma established_age:
  assumes "creation_date w = Some c" and "c \<noteq> []" and "f c = Naive t"
    and "3653 \<le> delta_days now t" and "delta_days now t \<le> 7304"
  shows "fst (snd (age_rule f now w)) = 3 / 2"
proof -
  let ?a = "(of_int (delta_days now t) :: rat) / (1461 / 4)"
  have lo: "10 \<le> ?a" using assms(4) by (simp add: field_simps)
  have hi: "\<not> 20 \<le> ?a" using assms(5) by (simp add: field_simps)
  show ?thesis
    using assms(1-3) lo hi by (simp add: age_rule_def Let_def)
qed

lemma ab_io_rules:
  "length_rule (length (split_first ''ab.io'')) = (2, [''Ultra-short name (2 chars)''])"
  "tld_rule ''ab.io'' = (1 / 2, [''Desirable TLD (io)''])"
  "keyword_rule (lower (split_first ''ab.io'')) = (0, [])"
  "brandability_rule (lower (split_first ''ab.io'')) =
     (1 / 2, [''Good brandability (pronounceable, clean)''])"
  "status_rule ''active'' = (- (1 / 2), [''Currently active -- acquisition unlikely''])"
  by code_simp+

lemma popularity_six: "length ys = 6 \<Longrightarrow> fst (popularity_rule (length ys)) = 3 / 2"
  by (simp add: popularity_rule_def)

text \<open>
  C9, as the code has it. For "ab.io" with a creation date between 10 and 20 Julian
  years before the current time (3653 to 7304 whole days, which covers 15 years), six
  years of popularity and status \<open>active\<close>, the seven rules add, in order, 1.5 (age),
  2.0 (length), 0.5 (TLD), 1.5 (popularity), 0 (keywords), 0.5 (brandability) and -0.5
  (active) to the base 5.0: the total before rounding is 10.5, the final score is 10 and
  the estimated value is "$100,000+".
\<close>

theorem ab_io_score:
  assumes "creation_date w = Some c" and "c \<noteq> []" and "f c = Naive t"
    and "3653 \<le> delta_days now t" and "delta_days now t \<le> 7304"
    and "length ys = 6"
  shows "map fst (adjustments f now ''ab.io'' ys ''active'' w) =
           [3 / 2, 2, 1 / 2, 3 / 2, 0, 1 / 2, - (1 / 2)] \<and>
         unclamped_score f now ''ab.io'' ys ''active'' w = 21 / 2 \<and>
         score (score_domain f now ''ab.io'' ys ''active'' w) = 10 \<and>
         estimated_value (score_domain f now ''ab.io'' ys ''active'' w) = ''$100,000+''"
proof -
  have age: "fst (snd (age_rule f now w)) = 3 / 2"
    using assms(1-5) by (rule established_age)
  have pop: "fst (popularity_rule (length ys)) = 3 / 2"
    using assms(6) by (rule popularity_six)
  have adj: "map fst (adjustments f now ''ab.io'' ys ''active'' w) =
               [3 / 2, 2, 1 / 2, 3 / 2, 0, 1 / 2, - (1 / 2)]"
    using age pop by (simp add: adjustments_def Let_def ab_io_rules)
  have total: "unclamped_score f now ''ab.io'' ys ''active'' w = 21 / 2"
    unfolding unclamped_score_sum using age pop by (simp add: ab_io_rules)
  have r: "py_round (21 / 2) = 10" by code_simp
  have sc: "score (score_domain f now ''ab.io'' ys ''active'' w) = 10"
    by (simp add: score_is_clamped_round total r)
  have "estimated_value (score_domain f now ''ab.io'' ys ''active'' w) =
          estimate_value 10 (fst (age_rule f now w)) (length (split_first ''ab.io'')) ''active''"
    by (simp add: score_domain_def Let_def total r)
  then have ev: "estimated_value (score_domain f now ''ab.io'' ys ''active'' w) = ''$100,000+''"
    by (simp add: estimate_value_def ranges_def)
  from adj total sc ev show ?thesis by simp
qed

theorem ab_io_score_witness:
  "map fst (adjustments fromisoformat_date (midnight 2026 11 3) ''ab.io''
              [2001, 2002, 2003, 2004, 2005, 2006] ''active''
              (empty_info\<lparr>creation_date := Some ''2011-11-03''\<rparr>)) =
     [3 / 2, 2, 1 / 2, 3 / 2, 0, 1 / 2, - (1 / 2)] \<and>
   unclamped_score fromisoformat_date (midnight 2026 11 3) ''ab.io''
     [2001, 2002, 2003, 2004, 2005, 2006] ''active''
     (empty_info\<lparr>creation_date := Some ''2011-11-03''\<rparr>) = 21 / 2 \<and>
   score (score_domain fromisoformat_date (midnight 2026 11 3) ''ab.io''
            [2001, 2002, 2003, 2004, 2005, 2006] ''active''
            (empty_info\<lparr>creation_date := Some ''2011-11-03''\<rparr>)) = 10 \<and>
   estimated_value (score_domain fromisoformat_date (midnight 2026 11 3) ''ab.io''
            [2001, 2002, 2003, 2004, 2005, 2006] ''active''
            (empty_info\<lparr>creation_date := Some ''2011-11-03''\<rparr>)) = ''$100,000+''"
proof -
  have 1: "creation_date (empty_info\<lparr>creation_date := Some ''2011-11-03''\<rparr>) =
             Some ''2011-11-03''"
    by simp
  have 2: "''2011-11-03'' \<noteq> []" by simp
  have 3: "fromisoformat_date ''2011-11-03'' = Naive (midnight 2011 11 3)" by code_simp
  have days: "delta_days (midnight 2026 11 3) (midnight 2011 11 3) = 5479" by code_simp
  have 4: "3653 \<le> delta_days (midnight 2026 11 3) (midnight 2011 11 3)"
    by (simp add: days)
  have 5: "delta_days (midnight 2026 11 3) (midnight 2011 11 3) \<le> 7304"
    by (simp add: days)
  have 6: "length [2001, 2002, 2003, 2004, 2005, 2006 :: int] = 6" by simp
  from 1 2 3 4 5 6 show ?thesis by (rule ab_io_score)
qed

text \<open>
  C9 as stated fails: "ab" has one vowel in two letters, no hyphen and no digit, so the
  brandability rule adds 0.5 as well; the total before rounding is 10.5, not 10.0 (it
  rounds to the even neighbour 10).
\<close>

theorem ab_io_brandability_counterexample:
  "brandability_rule (lower (split_first ''ab.io'')) =
     (1 / 2, [''Good brandability (pronounceable, clean)'']) \<and>
   unclamped_score fromisoformat_date (midnight 2026 11 3) ''ab.io''
     [2001, 2002, 2003, 2004, 2005, 2006] ''active''
     (empty_info\<lparr>creation_date := Some ''2011-11-03''\<rparr>) = 21 / 2 \<and>
   unclamped_score fromisoformat_date (midnight 2026 11 3) ''ab.io''
     [2001, 2002, 2003, 2004, 2005, 2006] ''active''
     (empty_info\<lparr>creation_date := Some ''2011-11-03''\<rparr>) \<noteq> 10"
  by code_simp

end
